theory Spec2Isabelle
  imports Main
begin

section \<open>The Sphinx configuration module \<open>doc/source/conf.py\<close>\<close>

text \<open>
  \<open>conf.py\<close> is a Python module that Sphinx executes once; the module's variables are
  the configuration. The module reads three things from outside: the file
  \<open>../../VERSION\<close>, the environment variable \<open>DOCUMENTATION_CNAME\<close> and the
  clock's year; and it imports three names of the package \<open>ansys_sphinx_theme\<close>.
  The model runs the module's statements in the source's order on an explicit namespace,
  and every exception that can leave the module is a value of the result.
\<close>

subsection \<open>Python values\<close>

text \<open>
  A Python \<open>str\<close> is a sequence of Unicode code points; a code point is a \<open>nat\<close>.
  \<open>lit\<close> turns a literal of the source into its code points.
\<close>

type_synonym ustr = "nat list"

definition lit :: "string \<Rightarrow> ustr" where
  "lit s = map of_char s"

datatype pyval =
    VStr ustr
  | VInt int
  | VBool bool
  | VList "pyval list"
  | VTuple "pyval list"
  | VDict "(ustr \<times> pyval) list"

text \<open>
  A dict literal with distinct keys, as all dict literals of \<open>conf.py\<close> are: the
  entries in insertion order. \<open>dict_get\<close> is \<open>d.get(k)\<close>.
\<close>

fun dict_get :: "pyval \<Rightarrow> ustr \<Rightarrow> pyval option" where
  "dict_get (VDict kvs) k = map_of kvs k"
| "dict_get _ k = None"

datatype py_error =
    FileNotFoundError
  | PermissionError
  | IsADirectoryError
  | UnicodeDecodeError
  | ValueError
  | TypeError

subsection \<open>The library functions the module calls\<close>

text \<open>
  \<open>str.isspace\<close> on one code point: the code points Python's \<open>str.strip()\<close>
  removes (bidirectional class WS, B or S, or category Zs).
\<close>

definition isspace :: "nat \<Rightarrow> bool" where
  "isspace c =
     (c \<in> set [9, 10, 11, 12, 13, 28, 29, 30, 31, 32, 133, 160, 5760,
                8192, 8193, 8194, 8195, 8196, 8197, 8198, 8199, 8200, 8201, 8202,
                8232, 8233, 8239, 8287, 12288])"

text \<open>\<open>s.strip()\<close>: leading and trailing whitespace removed.\<close>

definition strip :: "ustr \<Rightarrow> ustr" where
  "strip s = rev (dropWhile isspace (rev (dropWhile isspace s)))"

text \<open>
  \<open>open(path, "r")\<close> opens in text mode with universal newlines: on reading,
  \<open>\r\n\<close> and a lone \<open>\r\<close> become \<open>\n\<close> (code points 13 and 10).
\<close>

fun universal_newlines :: "ustr \<Rightarrow> ustr" where
  "universal_newlines [] = []"
| "universal_newlines [c] = (if c = 13 then [10] else [c])"
| "universal_newlines (c # d # ds) =
     (if c = 13 \<and> d = 10 then 10 # universal_newlines ds
      else if c = 13 then 10 # universal_newlines (d # ds)
      else c # universal_newlines (d # ds))"

text \<open>
  \<open>f.readline()\<close> on a freshly opened file: the text up to and including the first
  \<open>\n\<close>, or all of it when there is none (the empty string on an empty file).
\<close>

fun readline :: "ustr \<Rightarrow> ustr" where
  "readline [] = []"
| "readline (c # cs) = (if c = 10 then [10] else c # readline cs)"

text \<open>\<open>os.path.join(a, *p)\<close> of \<open>posixpath\<close>; the separator \<open>/\<close> is code point 47.\<close>

fun os_path_join :: "ustr \<Rightarrow> ustr list \<Rightarrow> ustr" where
  "os_path_join path [] = path"
| "os_path_join path (b # p) =
     os_path_join
       (if take 1 b = [47] then b
        else if path = [] \<or> last path = 47 then path @ b
        else path @ [47] @ b) p"

text \<open>\<open>os.getenv(key, default)\<close>.\<close>

definition os_getenv :: "(ustr \<rightharpoonup> ustr) \<Rightarrow> ustr \<Rightarrow> ustr \<Rightarrow> ustr" where
  "os_getenv env key dflt = (case env key of None \<Rightarrow> dflt | Some v \<Rightarrow> v)"

text \<open>
  An \<open>int\<close> in an f-string, \<open>f"{n}"\<close>: its decimal digits (code points 48 to 57),
  after a minus sign (45) when negative.
\<close>

fun decimal :: "nat \<Rightarrow> ustr" where
  "decimal n = (if n < 10 then [48 + n] else decimal (n div 10) @ [48 + n mod 10])"

declare decimal.simps [simp del]

definition format_int :: "int \<Rightarrow> ustr" where
  "format_int i = (if i < 0 then 45 # decimal (nat (- i)) else decimal (nat i))"

subsection \<open>What the module reads from outside\<close>

text \<open>
  \<open>files\<close> is the file system as the module sees it: for a path, the exception that
  opening and reading the file raises, or the file's decoded text. \<open>environ\<close> is
  \<open>os.environ\<close>, \<open>year\<close> is \<open>datetime.now().year\<close>.
\<close>

record world =
  files :: "ustr \<Rightarrow> py_error + ustr"
  environ :: "ustr \<rightharpoonup> ustr"
  year :: int

text \<open>
  The three names imported from \<open>ansys_sphinx_theme\<close>. The package is not part of the
  repository, so its two constants and its function are parameters; a Python call may
  raise, so the function returns an exception or a value.
\<close>

record theme =
  ansys_logo_black :: pyval
  ansys_favicon :: pyval
  get_version_match :: "ustr \<Rightarrow> py_error + pyval"

subsection \<open>The module\<close>

text \<open>The module's variables after the statements run so far, by name.\<close>

type_synonym namespace = "string \<rightharpoonup> pyval"

text \<open>
  Lines 45 to 68: logo, theme and title. \<open>project\<close> is the variable of line 31;
  \<open>cname\<close> and \<open>switcher_version\<close> are the variables of lines 41 and 40. The chained
  assignment of line 46 assigns its targets from left to right.
\<close>

definition html_settings :: "theme \<Rightarrow> pyval \<Rightarrow> ustr \<Rightarrow> pyval \<Rightarrow> namespace \<Rightarrow> namespace" where
  "html_settings th project cname switcher_version ns =
     (let ns = ns(''html_theme'' \<mapsto> VStr (lit ''ansys_sphinx_theme''));
          ns = ns(''html_short_title'' \<mapsto> project);
          ns = ns(''html_title'' \<mapsto> project);
          ns = ns(''html_logo'' \<mapsto> ansys_logo_black th);
          ns = ns(''html_favicon'' \<mapsto> ansys_favicon th);
          ns = ns(''html_context'' \<mapsto> VDict
                 [(lit ''github_user'', VStr (lit ''ansys'')),
                  (lit ''github_repo'', VStr (lit ''aali-flowkit'')),
                  (lit ''github_version'', VStr (lit ''main'')),
                  (lit ''doc_path'', VStr (lit ''doc/source''))]);
          ns = ns(''html_theme_options'' \<mapsto> VDict
                 [(lit ''github_url'', VStr (lit ''https://github.com/ansys/aali-flowkit'')),
                  (lit ''additional_breadcrumbs'',
                     VList [VTuple [VStr (lit ''Aali''), VStr (lit ''https://aali.docs.ansys.com/'')]]),
                  (lit ''switcher'', VDict
                     [(lit ''json_url'', VStr (lit ''https://'' @ cname @ lit ''/versions.json'')),
                      (lit ''version_match'', switcher_version)]),
                  (lit ''check_switcher'', VBool False),
                  (lit ''show_prev_next'', VBool False),
                  (lit ''show_breadcrumbs'', VBool True),
                  (lit ''use_edit_page_button'', VBool True)])
      in ns)"

text \<open>Lines 71 to 105: extensions, templates, source suffixes, MyST, warnings.\<close>

definition sphinx_settings :: "namespace \<Rightarrow> namespace" where
  "sphinx_settings ns =
     (let ns = ns(''extensions'' \<mapsto> VList
                 [VStr (lit ''sphinx_design''), VStr (lit ''sphinx_copybutton''),
                  VStr (lit ''myst_parser'')]);
          ns = ns(''templates_path'' \<mapsto> VList [VStr (lit ''_templates'')]);
          ns = ns(''source_suffix'' \<mapsto> VStr (lit ''.rst''));
          ns = ns(''master_doc'' \<mapsto> VStr (lit ''index''));
          ns = ns(''source_suffix'' \<mapsto> VDict
                 [(lit ''.rst'', VStr (lit ''restructuredtext'')),
                  (lit ''.md'', VStr (lit ''markdown''))]);
          ns = ns(''master_doc'' \<mapsto> VStr (lit ''index''));
          ns = ns(''myst_enable_extensions'' \<mapsto> VList
                 [VStr (lit ''replacements''), VStr (lit ''smartquotes'')]);
          ns = ns(''myst_heading_anchors'' \<mapsto> VInt 3);
          ns = ns(''suppress_warnings'' \<mapsto> VList [VStr (lit ''myst.xref_missing'')])
      in ns)"

text \<open>The path of line 36, \<open>os.path.join("..", "..", "VERSION")\<close>.\<close>

definition version_path :: ustr where
  "version_path = os_path_join (lit ''..'') [lit ''..'', lit ''VERSION'']"

text \<open>
  The whole module, lines 31 to 105. The \<open>with\<close> statement of lines 36 and 37 has no
  handler, and neither has the call of line 40: an exception of either leaves the module,
  and no configuration results. The chained assignment of line 39 assigns \<open>release\<close>,
  then \<open>version\<close>. The namespace holds the variables the assignment statements bind,
  not the imported names nor the closed file object \<open>f\<close>.
\<close>

definition conf :: "theme \<Rightarrow> world \<Rightarrow> py_error + namespace" where
  "conf th w =
     (let project = VStr (lit ''aali-flowkit'');
          ns = Map.empty(''project'' \<mapsto> project);
          ns = ns(''copyright'' \<mapsto>
                 VStr (lit ''(c) '' @ format_int (year w) @ lit '' ANSYS, Inc. All rights reserved''));
          ns = ns(''author'' \<mapsto> VStr (lit ''ANSYS, Inc.''))
      in case files w version_path of
           Inl e \<Rightarrow> Inl e
         | Inr text \<Rightarrow>
             (let version_file = strip (readline (universal_newlines text));
                  ns = ns(''version_file'' \<mapsto> VStr version_file);
                  ns = ns(''release'' \<mapsto> VStr version_file);
                  ns = ns(''version'' \<mapsto> VStr version_file)
              in case get_version_match th version_file of
                   Inl e \<Rightarrow> Inl e
                 | Inr switcher_version \<Rightarrow>
                     (let ns = ns(''switcher_version'' \<mapsto> switcher_version);
                          cname = os_getenv (environ w) (lit ''DOCUMENTATION_CNAME'')
                                    (lit ''laughing-guide-5m1lvq6.pages.github.io'');
                          ns = ns(''cname'' \<mapsto> VStr cname);
                          ns = html_settings th project cname switcher_version ns;
                          ns = sphinx_settings ns
                      in Inr ns)))"

text \<open>
  Reading the theme options of a namespace: \<open>html_theme_options.get(k)\<close> and
  \<open>html_theme_options["switcher"].get(k)\<close>.
\<close>

definition theme_option :: "namespace \<Rightarrow> ustr \<Rightarrow> pyval option" where
  "theme_option ns k =
     (case ns ''html_theme_options'' of None \<Rightarrow> None | Some opts \<Rightarrow> dict_get opts k)"

definition switcher_entry :: "namespace \<Rightarrow> ustr \<Rightarrow> pyval option" where
  "switcher_entry ns k =
     (case theme_option ns (lit ''switcher'') of None \<Rightarrow> None | Some sw \<Rightarrow> dict_get sw k)"

text \<open>
  The value of one variable in the module's result: the exception when the module
  failed, otherwise what the namespace holds under the name.
\<close>

definition module_value :: "py_error + namespace \<Rightarrow> string \<Rightarrow> py_error + pyval option" where
  "module_value r x = (case r of Inl e \<Rightarrow> Inl e | Inr ns \<Rightarrow> Inr (ns x))"

subsection \<open>Concrete inputs\<close>

text \<open>
  Inputs to run the module on. \<open>sample_version_match\<close> stands in for the package's
  function: \<open>dev\<close> for a version that contains \<open>dev\<close>, otherwise the first two
  dot-separated fields of the version, and a \<open>ValueError\<close> (too few values to unpack)
  when the version has fewer than two fields. No theorem about \<open>conf\<close> for all themes
  depends on it.
\<close>

fun split_char :: "nat \<Rightarrow> ustr \<Rightarrow> ustr list" where
  "split_char sep [] = [[]]"
| "split_char sep (c # cs) =
     (if c = sep then [] # split_char sep cs
      else (case split_char sep cs of [] \<Rightarrow> [[c]] | x # xs \<Rightarrow> (c # x) # xs))"

text \<open>\<open>sub in s\<close> on strings.\<close>

fun contains :: "ustr \<Rightarrow> ustr \<Rightarrow> bool" where
  "contains sub [] = (sub = [])"
| "contains sub (c # cs) = (take (length sub) (c # cs) = sub \<or> contains sub cs)"

definition sample_version_match :: "ustr \<Rightarrow> py_error + pyval" where
  "sample_version_match semver =
     (if contains (lit ''dev'') semver then Inr (VStr (lit ''dev''))
      else (case split_char 46 semver of
              major # minor # rest \<Rightarrow> Inr (VStr (major @ [46] @ minor))
            | _ \<Rightarrow> Inl ValueError))"

definition sample_theme :: theme where
  "sample_theme =
     \<lparr>ansys_logo_black = VStr (lit ''/theme/static/ansys_logo_black.png''),
      ansys_favicon = VStr (lit ''/theme/static/ansys-favicon.png''),
      get_version_match = sample_version_match\<rparr>"

text \<open>A file system that holds the version file alone, and one that holds nothing.\<close>

definition version_file_only :: "ustr \<Rightarrow> ustr \<Rightarrow> py_error + ustr" where
  "version_file_only body p =
     (if p = lit ''../../VERSION'' then Inr body else Inl FileNotFoundError)"

definition no_files :: "ustr \<Rightarrow> py_error + ustr" where
  "no_files p = Inl FileNotFoundError"

text \<open>
  A version file of two lines, \<open>1.2.3\<close> between blanks and a line of notes, the
  first ended by \<open>\r\n\<close>; no environment variable; the year 2025.
\<close>

definition sample_text :: ustr where
  "sample_text = lit '' 1.2.3 '' @ [13, 10] @ lit ''notes'' @ [10]"

definition sample_world :: world where
  "sample_world = \<lparr>files = version_file_only sample_text, environ = Map.empty, year = 2025\<rparr>"

section \<open>Properties\<close>

subsection \<open>The library functions\<close>

lemma version_path_eq: "version_path = lit ''../../VERSION''"
  by (simp add: version_path_def lit_def)

lemma universal_newlines_Cons:
  "c \<noteq> 13 \<Longrightarrow> universal_newlines (c # cs) = c # universal_newlines cs"
  by (cases cs) simp_all

lemma universal_newlines_append:
  "13 \<notin> set l \<Longrightarrow> universal_newlines (l @ t) = l @ universal_newlines t"
  by (induction l) (simp_all add: universal_newlines_Cons)

lemma universal_newlines_break:
  "t = [] \<or> hd t = 10 \<or> hd t = 13 \<Longrightarrow>
   universal_newlines t = [] \<or> (\<exists>r. universal_newlines t = 10 # r)"
  by (induction t rule: universal_newlines.induct) auto

lemma readline_plain: "10 \<notin> set l \<Longrightarrow> readline l = l"
  by (induction l) auto

lemma readline_first: "10 \<notin> set l \<Longrightarrow> readline (l @ 10 # r) = l @ [10]"
  by (induction l) auto

text \<open>A whitespace character at the end of a string does not change what \<open>strip\<close> gives.\<close>

lemma strip_snoc: "isspace c \<Longrightarrow> strip (l @ [c]) = strip l"
proof (cases "\<forall>x\<in>set l. isspace x")
  case True
  assume "isspace c"
  with True have a: "dropWhile isspace (l @ [c]) = []"
    by (simp only: dropWhile_eq_Nil_conv) simp
  from True have b: "dropWhile isspace l = []"
    by (simp only: dropWhile_eq_Nil_conv)
  show ?thesis unfolding strip_def a b by simp
next
  case False
  assume c: "isspace c"
  from False obtain x where "x \<in> set l" "\<not> isspace x" by blast
  then have a: "dropWhile isspace (l @ [c]) = dropWhile isspace l @ [c]"
    by (simp add: dropWhile_append1)
  show ?thesis unfolding strip_def a using c by simp
qed

text \<open>
  \<open>strip\<close> removes exactly the surrounding whitespace: of whitespace, a string with no
  whitespace at either end, and whitespace, it leaves the string in the middle.
\<close>

lemma strip_surrounded:
  assumes a: "\<forall>c\<in>set a. isspace c" and b: "\<forall>c\<in>set b. isspace c"
    and s: "s = [] \<or> (\<not> isspace (hd s) \<and> \<not> isspace (last s))"
  shows "strip (a @ s @ b) = s"
proof (cases "s = []")
  case True
  from a b have e: "dropWhile isspace (a @ b) = []"
    by (simp only: dropWhile_eq_Nil_conv) auto
  from True have "strip (a @ s @ b) = rev (dropWhile isspace (rev (dropWhile isspace (a @ b))))"
    by (simp only: strip_def append_Nil)
  with True show ?thesis unfolding e by simp
next
  case False
  with s have h: "\<not> isspace (hd s)" and l: "\<not> isspace (last s)" by auto
  from False h have "dropWhile isspace (s @ b) = s @ b"
    by (cases s) auto
  with a have front: "dropWhile isspace (a @ s @ b) = s @ b"
    by (simp add: dropWhile_append)
  from False l have "dropWhile isspace (rev s) = rev s"
    by (cases s rule: rev_cases) auto
  with b have "dropWhile isspace (rev (s @ b)) = rev s"
    by (simp add: dropWhile_append)
  with front show ?thesis by (simp add: strip_def)
qed

text \<open>
  The first line of a file: when the text is \<open>l\<close>, free of line breaks, followed by
  nothing or by a line break and anything, \<open>f.readline().strip()\<close> is \<open>l.strip()\<close>.
\<close>

lemma first_line:
  assumes "10 \<notin> set l" "13 \<notin> set l" "rest = [] \<or> hd rest = 10 \<or> hd rest = 13"
  shows "strip (readline (universal_newlines (l @ rest))) = strip l"
proof -
  have sp: "isspace 10" by (simp add: isspace_def)
  from universal_newlines_break [OF assms(3)] show ?thesis
  proof
    assume "universal_newlines rest = []"
    with assms show ?thesis by (simp add: universal_newlines_append readline_plain)
  next
    assume "\<exists>r. universal_newlines rest = 10 # r"
    then obtain r where "universal_newlines rest = 10 # r" ..
    with assms show ?thesis
      by (simp add: universal_newlines_append readline_first strip_snoc [OF sp])
  qed
qed

subsection \<open>The assignments of the module\<close>

lemma sphinx_settings_frame:
  "n \<notin> {''extensions'', ''templates_path'', ''source_suffix'', ''master_doc'',
          ''myst_enable_extensions'', ''myst_heading_anchors'', ''suppress_warnings''} \<Longrightarrow>
   sphinx_settings ns n = ns n"
  by (simp add: sphinx_settings_def Let_def)

lemma html_settings_frame:
  "n \<notin> {''html_theme'', ''html_short_title'', ''html_title'', ''html_logo'', ''html_favicon'',
          ''html_context'', ''html_theme_options''} \<Longrightarrow>
   html_settings th p c t ns n = ns n"
  by (simp add: html_settings_def Let_def)

lemma sphinx_settings_html_theme_options:
  "sphinx_settings (html_settings th p c t ns) ''html_theme_options'' =
   Some (VDict
     [(lit ''github_url'', VStr (lit ''https://github.com/ansys/aali-flowkit'')),
      (lit ''additional_breadcrumbs'',
         VList [VTuple [VStr (lit ''Aali''), VStr (lit ''https://aali.docs.ansys.com/'')]]),
      (lit ''switcher'', VDict
         [(lit ''json_url'', VStr (lit ''https://'' @ c @ lit ''/versions.json'')),
          (lit ''version_match'', t)]),
      (lit ''check_switcher'', VBool False),
      (lit ''show_prev_next'', VBool False),
      (lit ''show_breadcrumbs'', VBool True),
      (lit ''use_edit_page_button'', VBool True)])"
  by (simp add: sphinx_settings_frame html_settings_def Let_def)

lemma switcher_entry_conf:
  "switcher_entry (sphinx_settings (html_settings th p c t ns)) k =
   map_of [(lit ''json_url'', VStr (lit ''https://'' @ c @ lit ''/versions.json'')),
           (lit ''version_match'', t)] k"
  unfolding switcher_entry_def theme_option_def sphinx_settings_html_theme_options
  by (simp add: lit_def)

lemma theme_option_conf:
  "k \<noteq> lit ''switcher'' \<Longrightarrow>
   theme_option (sphinx_settings (html_settings th p c t ns)) k =
   theme_option (sphinx_settings (html_settings th p c' t' ns')) k"
  unfolding theme_option_def sphinx_settings_html_theme_options
  by simp

text \<open>The module completes when the file is read and the theme's function returns.\<close>

lemma conf_Inr_I:
  assumes "files w version_path = Inr body"
    and "get_version_match th (strip (readline (universal_newlines body))) = Inr tok"
  shows "\<exists>ns. conf th w = Inr ns"
  using assms by (simp add: conf_def Let_def)

subsection \<open>The module on the concrete inputs\<close>

lemma sample_files: "files sample_world version_path = Inr sample_text"
  by (simp add: sample_world_def version_file_only_def version_path_eq)

lemma sample_first_line: "strip (readline (universal_newlines sample_text)) = lit ''1.2.3''"
  by (simp add: sample_text_def lit_def strip_def isspace_def)

lemma sample_match: "sample_version_match (lit ''1.2.3'') = Inr (VStr (lit ''1.2''))"
  by (simp add: sample_version_match_def lit_def)

lemma sample_conf_ok:
  assumes "files w version_path = files sample_world version_path"
  shows "\<exists>ns. conf sample_theme w = Inr ns"
proof (rule conf_Inr_I)
  show "files w version_path = Inr sample_text"
    using assms sample_files by simp
  show "get_version_match sample_theme (strip (readline (universal_newlines sample_text))) =
        Inr (VStr (lit ''1.2''))"
    unfolding sample_first_line by (simp add: sample_theme_def sample_match)
qed

lemma format_int_2025: "format_int 2025 = lit ''2025''"
  by (simp add: format_int_def decimal.simps lit_def)

lemma format_int_2026: "format_int 2026 = lit ''2026''"
  by (simp add: format_int_def decimal.simps lit_def)

text \<open>Three variables of the module's result, when the module completes.\<close>

lemma module_value_conf:
  assumes "files w version_path = Inr body"
    and "strip (readline (universal_newlines body)) = v"
    and "get_version_match th v = Inr tok"
  shows "module_value (conf th w) ''copyright'' =
           Inr (Some (VStr (lit ''(c) '' @ format_int (year w) @
                            lit '' ANSYS, Inc. All rights reserved'')))"
    and "module_value (conf th w) ''cname'' =
           Inr (Some (VStr (os_getenv (environ w) (lit ''DOCUMENTATION_CNAME'')
                              (lit ''laughing-guide-5m1lvq6.pages.github.io''))))"
    and "module_value (conf th w) ''switcher_version'' = Inr (Some tok)"
  using assms
  by (simp_all add: module_value_def conf_def Let_def sphinx_settings_frame html_settings_frame)

subsection \<open>Version and release\<close>

text \<open>
  Claim C1. The version file's text is whitespace \<open>a\<close>, a string \<open>s\<close> with no
  whitespace at either end, whitespace \<open>b\<close>, none of them with a line break, followed
  by nothing or by a line break (\<open>\n\<close>, \<open>\r\<close> or \<open>\r\n\<close>) and any further text:
  so the first line, stripped of surrounding whitespace, is \<open>s\<close>. When the theme's
  \<open>get_version_match\<close> returns on \<open>s\<close>, the module completes, and the configuration
  has \<open>version\<close> and \<open>release\<close> both equal to \<open>s\<close>. The text after the first line
  is arbitrary, so it has no effect on either value. (When \<open>get_version_match\<close> raises
  there is no configuration.)
\<close>

theorem conf_version_release:
  assumes "files w version_path = Inr (a @ s @ b @ rest)"
    and "\<forall>c\<in>set a. isspace c" and "\<forall>c\<in>set b. isspace c"
    and "s = [] \<or> (\<not> isspace (hd s) \<and> \<not> isspace (last s))"
    and "10 \<notin> set (a @ s @ b)" and "13 \<notin> set (a @ s @ b)"
    and "rest = [] \<or> hd rest = 10 \<or> hd rest = 13"
    and "get_version_match th s = Inr tok"
  shows "\<exists>ns. conf th w = Inr ns \<and>
           ns ''version'' = Some (VStr s) \<and> ns ''release'' = Some (VStr s)"
proof -
  have "strip (readline (universal_newlines ((a @ s @ b) @ rest))) = strip (a @ s @ b)"
    using assms(5-7) by (rule first_line)
  also have "strip (a @ s @ b) = s"
    using assms(2-4) by (rule strip_surrounded)
  finally have v: "strip (readline (universal_newlines (a @ s @ b @ rest))) = s"
    by simp
  from assms(1) v assms(8) show ?thesis
    by (simp add: conf_def Let_def sphinx_settings_frame html_settings_frame)
qed

theorem conf_version_release_witness:
  "(case conf sample_theme sample_world of
      Inl e \<Rightarrow> False
    | Inr ns \<Rightarrow> ns ''version'' = Some (VStr (lit ''1.2.3'')) \<and>
                ns ''release'' = Some (VStr (lit ''1.2.3'')))"
proof -
  have f: "files sample_world version_path =
             Inr (lit '' '' @ lit ''1.2.3'' @ lit '' '' @ ([13, 10] @ lit ''notes'' @ [10]))"
    using sample_files by (simp add: sample_text_def lit_def)
  have m: "get_version_match sample_theme (lit ''1.2.3'') = Inr (VStr (lit ''1.2''))"
    by (simp add: sample_theme_def sample_match)
  have "\<exists>ns. conf sample_theme sample_world = Inr ns \<and>
          ns ''version'' = Some (VStr (lit ''1.2.3'')) \<and>
          ns ''release'' = Some (VStr (lit ''1.2.3''))"
    by (rule conf_version_release [OF f _ _ _ _ _ _ m]) (simp_all add: lit_def isspace_def)
  then show ?thesis by auto
qed

subsection \<open>A missing version file\<close>

text \<open>
  Claim C2. When opening or reading the version file raises an exception, the module
  fails with that same exception: the result is the error and no configuration, so no
  default version is set and nothing recovers.
\<close>

theorem conf_missing_version_file:
  "files w version_path = Inl e \<Longrightarrow> conf th w = Inl e"
  by (simp add: conf_def Let_def)

theorem conf_missing_version_file_witness:
  "conf sample_theme (sample_world\<lparr>files := no_files\<rparr>) = Inl FileNotFoundError"
  by (rule conf_missing_version_file) (simp add: no_files_def)

subsection \<open>The documentation hostname\<close>

text \<open>
  Claim C4. When the environment variable \<open>DOCUMENTATION_CNAME\<close> is unset, the
  assembled configuration's \<open>cname\<close> is the default literal
  \<open>laughing-guide-5m1lvq6.pages.github.io\<close>.
\<close>

theorem conf_cname_default:
  assumes "environ w (lit ''DOCUMENTATION_CNAME'') = None" and "conf th w = Inr ns"
  shows "ns ''cname'' = Some (VStr (lit ''laughing-guide-5m1lvq6.pages.github.io''))"
  using assms
  by (auto simp: conf_def Let_def os_getenv_def sphinx_settings_frame html_settings_frame
           split: sum.splits)

theorem conf_cname_default_witness:
  "environ sample_world (lit ''DOCUMENTATION_CNAME'') = None \<and>
   (case conf sample_theme sample_world of
      Inl e \<Rightarrow> False
    | Inr ns \<Rightarrow> ns ''cname'' = Some (VStr (lit ''laughing-guide-5m1lvq6.pages.github.io'')))"
proof -
  obtain ns where c: "conf sample_theme sample_world = Inr ns"
    using sample_conf_ok [of sample_world] by auto
  have e: "environ sample_world (lit ''DOCUMENTATION_CNAME'') = None"
    by (simp add: sample_world_def)
  from conf_cname_default [OF e c] e show ?thesis by (simp add: c)
qed

text \<open>
  Claim C5. When the environment variable \<open>DOCUMENTATION_CNAME\<close> is set to a string
  \<open>v\<close>, the empty string included, the assembled configuration's \<open>cname\<close> is \<open>v\<close>.
\<close>

theorem conf_cname_env:
  assumes "environ w (lit ''DOCUMENTATION_CNAME'') = Some v" and "conf th w = Inr ns"
  shows "ns ''cname'' = Some (VStr v)"
  using assms
  by (auto simp: conf_def Let_def os_getenv_def sphinx_settings_frame html_settings_frame
           split: sum.splits)

theorem conf_cname_env_witness:
  "(case conf sample_theme
           (sample_world\<lparr>environ := [lit ''DOCUMENTATION_CNAME'' \<mapsto> lit ''docs.example.com'']\<rparr>) of
      Inl e \<Rightarrow> False
    | Inr ns \<Rightarrow> ns ''cname'' = Some (VStr (lit ''docs.example.com'')))"
proof -
  let ?w = "sample_world\<lparr>environ := [lit ''DOCUMENTATION_CNAME'' \<mapsto> lit ''docs.example.com'']\<rparr>"
  obtain ns where c: "conf sample_theme ?w = Inr ns"
    using sample_conf_ok [of ?w] by auto
  have e: "environ ?w (lit ''DOCUMENTATION_CNAME'') = Some (lit ''docs.example.com'')"
    by simp
  from conf_cname_env [OF e c] show ?thesis by (simp add: c)
qed

subsection \<open>The version switcher\<close>

text \<open>
  Claim C6. In the assembled configuration, \<open>switcher_version\<close> is what the theme's
  \<open>get_version_match\<close> returns on the stripped first line of the version file, the very
  string that \<open>version\<close> holds, and the \<open>version_match\<close> entry of the switcher options
  is that same value.
\<close>

theorem conf_switcher_version:
  assumes "files w version_path = Inr body" and "conf th w = Inr ns"
  shows "\<exists>tok. get_version_match th (strip (readline (universal_newlines body))) = Inr tok \<and>
           ns ''version'' = Some (VStr (strip (readline (universal_newlines body)))) \<and>
           ns ''switcher_version'' = Some tok \<and>
           switcher_entry ns (lit ''version_match'') = Some tok"
  using assms
  by (auto simp: conf_def Let_def sphinx_settings_frame html_settings_frame switcher_entry_conf
                 lit_def
           split: sum.splits)

theorem conf_switcher_version_witness:
  "(case conf sample_theme sample_world of
      Inl e \<Rightarrow> False
    | Inr ns \<Rightarrow>
        get_version_match sample_theme (lit ''1.2.3'') = Inr (VStr (lit ''1.2'')) \<and>
        ns ''version'' = Some (VStr (lit ''1.2.3'')) \<and>
        ns ''switcher_version'' = Some (VStr (lit ''1.2'')) \<and>
        switcher_entry ns (lit ''version_match'') = Some (VStr (lit ''1.2'')))"
proof -
  obtain ns where c: "conf sample_theme sample_world = Inr ns"
    using sample_conf_ok [of sample_world] by auto
  have m: "get_version_match sample_theme (lit ''1.2.3'') = Inr (VStr (lit ''1.2''))"
    by (simp add: sample_theme_def sample_match)
  from conf_switcher_version [OF sample_files c] m show ?thesis
    unfolding sample_first_line by (auto simp: c)
qed

text \<open>
  Claim C9. In the assembled configuration, \<open>cname\<close> is the value of
  \<open>DOCUMENTATION_CNAME\<close> or, when unset, the default, and the switcher's
  \<open>json_url\<close> is \<open>https://\<close> followed by that \<open>cname\<close> followed by
  \<open>/versions.json\<close>.
\<close>

theorem conf_switcher_json_url:
  assumes "conf th w = Inr ns"
  shows "ns ''cname'' =
           Some (VStr (os_getenv (environ w) (lit ''DOCUMENTATION_CNAME'')
                         (lit ''laughing-guide-5m1lvq6.pages.github.io''))) \<and>
         switcher_entry ns (lit ''json_url'') =
           Some (VStr (lit ''https://'' @
                       os_getenv (environ w) (lit ''DOCUMENTATION_CNAME'')
                         (lit ''laughing-guide-5m1lvq6.pages.github.io'') @
                       lit ''/versions.json''))"
  using assms
  by (auto simp: conf_def Let_def sphinx_settings_frame html_settings_frame switcher_entry_conf
           split: sum.splits)

theorem conf_switcher_json_url_witness:
  "(case conf sample_theme
           (sample_world\<lparr>environ := [lit ''DOCUMENTATION_CNAME'' \<mapsto> lit ''docs.example.com'']\<rparr>) of
      Inl e \<Rightarrow> False
    | Inr ns \<Rightarrow>
        ns ''cname'' = Some (VStr (lit ''docs.example.com'')) \<and>
        switcher_entry ns (lit ''json_url'') =
          Some (VStr (lit ''https://docs.example.com/versions.json'')))"
proof -
  let ?w = "sample_world\<lparr>environ := [lit ''DOCUMENTATION_CNAME'' \<mapsto> lit ''docs.example.com'']\<rparr>"
  obtain ns where c: "conf sample_theme ?w = Inr ns"
    using sample_conf_ok [of ?w] by auto
  from conf_switcher_json_url [OF c]
  have "ns ''cname'' = Some (VStr (lit ''docs.example.com'')) \<and>
        switcher_entry ns (lit ''json_url'') =
          Some (VStr (lit ''https://docs.example.com/versions.json''))"
    by (simp add: os_getenv_def lit_def)
  then show ?thesis by (simp add: c)
qed

subsection \<open>The source suffixes\<close>

text \<open>
  Claim C8. In the assembled configuration, \<open>source_suffix\<close> is the dict that maps
  \<open>.rst\<close> to \<open>restructuredtext\<close> and \<open>.md\<close> to \<open>markdown\<close>; the string
  \<open>.rst\<close> that line 82 assigns is overwritten by line 87 and is not the final value.
\<close>

theorem conf_source_suffix:
  assumes "conf th w = Inr ns"
  shows "ns ''source_suffix'' =
           Some (VDict [(lit ''.rst'', VStr (lit ''restructuredtext'')),
                        (lit ''.md'', VStr (lit ''markdown''))]) \<and>
         ns ''source_suffix'' \<noteq> Some (VStr (lit ''.rst''))"
  using assms
  by (auto simp: conf_def Let_def sphinx_settings_def split: sum.splits)

theorem conf_source_suffix_witness:
  "(case conf sample_theme sample_world of
      Inl e \<Rightarrow> False
    | Inr ns \<Rightarrow>
        ns ''source_suffix'' =
          Some (VDict [(lit ''.rst'', VStr (lit ''restructuredtext'')),
                       (lit ''.md'', VStr (lit ''markdown''))]))"
proof -
  obtain ns where c: "conf sample_theme sample_world = Inr ns"
    using sample_conf_ok [of sample_world] by auto
  from conf_source_suffix [OF c] show ?thesis by (simp add: c)
qed

subsection \<open>Failure and success of the module\<close>

text \<open>
  Claim C7, as amended. The read of the version file and the call of the theme's
  \<open>get_version_match\<close> are the two operations of the module that can fail. Whatever
  \<open>DOCUMENTATION_CNAME\<close> is, set or unset: when the file cannot be read, the module
  fails with the read error; when the file is read and \<open>get_version_match\<close> raises on
  the stripped first line, the module fails with that exception; when the file is read and
  \<open>get_version_match\<close> returns, the module completes with a configuration.
\<close>

theorem conf_outcome:
  "(case files w version_path of
      Inl e \<Rightarrow> conf th (w\<lparr>environ := env\<rparr>) = Inl e
    | Inr body \<Rightarrow>
        (case get_version_match th (strip (readline (universal_newlines body))) of
           Inl e \<Rightarrow> conf th (w\<lparr>environ := env\<rparr>) = Inl e
         | Inr tok \<Rightarrow> (\<exists>ns. conf th (w\<lparr>environ := env\<rparr>) = Inr ns)))"
  by (simp add: conf_def Let_def split: sum.splits)

theorem conf_outcome_witness:
  "\<exists>ns. conf sample_theme
          (sample_world\<lparr>environ := [lit ''DOCUMENTATION_CNAME'' \<mapsto> lit ''docs.example.com'']\<rparr>) =
        Inr ns"
proof -
  have m: "get_version_match sample_theme (lit ''1.2.3'') = Inr (VStr (lit ''1.2''))"
    by (simp add: sample_theme_def sample_match)
  from conf_outcome [where w = sample_world and th = sample_theme
      and env = "[lit ''DOCUMENTATION_CNAME'' \<mapsto> lit ''docs.example.com'']"]
  show ?thesis
    unfolding sample_files sum.case sample_first_line m .
qed

text \<open>
  The claim as stated, that the module completes whenever the version file is readable,
  fails: the version file holds the one line \<open>1\<close>, the read succeeds, and a
  \<open>get_version_match\<close> that wants two dot-separated fields raises \<open>ValueError\<close>,
  which leaves the module, as line 40 has no handler.
\<close>

theorem conf_outcome_counterexample:
  "files (sample_world\<lparr>files := version_file_only (lit ''1'' @ [10])\<rparr>) version_path =
     Inr (lit ''1'' @ [10]) \<and>
   conf sample_theme (sample_world\<lparr>files := version_file_only (lit ''1'' @ [10])\<rparr>) =
     Inl ValueError"
proof -
  let ?w = "sample_world\<lparr>files := version_file_only (lit ''1'' @ [10])\<rparr>"
  have v: "strip (readline (universal_newlines (lit ''1'' @ [10]))) = lit ''1''"
    by (simp add: lit_def strip_def isspace_def)
  have m: "get_version_match sample_theme (lit ''1'') = Inl ValueError"
    by (simp add: sample_theme_def sample_version_match_def lit_def)
  have f: "files ?w version_path = Inr (lit ''1'' @ [10])"
    by (simp add: version_file_only_def version_path_eq)
  have "conf sample_theme ?w = Inl ValueError"
    unfolding conf_def Let_def f sum.case v m ..
  with f show ?thesis ..
qed

subsection \<open>What each value depends on\<close>

text \<open>
  Claim C3, as amended. Of two assembled configurations, for any two states of the file
  system, the environment and the clock: every variable other than \<open>copyright\<close>,
  \<open>version_file\<close>, \<open>release\<close>, \<open>version\<close>, \<open>switcher_version\<close>, \<open>cname\<close>
  and \<open>html_theme_options\<close> has the same value in both, and so has every entry of
  \<open>html_theme_options\<close> other than \<open>switcher\<close>; \<open>copyright\<close> is the same when the
  year is; \<open>cname\<close> and the switcher's \<open>json_url\<close> are the same when
  \<open>DOCUMENTATION_CNAME\<close> is; \<open>version_file\<close>, \<open>release\<close>, \<open>version\<close>,
  \<open>switcher_version\<close> and the switcher's \<open>version_match\<close> are the same when the
  version file is.
\<close>

theorem conf_static_values:
  assumes "conf th w1 = Inr ns1" and "conf th w2 = Inr ns2"
  shows "(n \<notin> {''copyright'', ''version_file'', ''release'', ''version'', ''switcher_version'',
               ''cname'', ''html_theme_options''} \<longrightarrow> ns1 n = ns2 n) \<and>
         (k \<noteq> lit ''switcher'' \<longrightarrow> theme_option ns1 k = theme_option ns2 k) \<and>
         (year w1 = year w2 \<longrightarrow> ns1 ''copyright'' = ns2 ''copyright'') \<and>
         (environ w1 (lit ''DOCUMENTATION_CNAME'') = environ w2 (lit ''DOCUMENTATION_CNAME'') \<longrightarrow>
            ns1 ''cname'' = ns2 ''cname'' \<and>
            switcher_entry ns1 (lit ''json_url'') = switcher_entry ns2 (lit ''json_url'')) \<and>
         (files w1 version_path = files w2 version_path \<longrightarrow>
            ns1 ''version_file'' = ns2 ''version_file'' \<and>
            ns1 ''release'' = ns2 ''release'' \<and>
            ns1 ''version'' = ns2 ''version'' \<and>
            ns1 ''switcher_version'' = ns2 ''switcher_version'' \<and>
            switcher_entry ns1 (lit ''version_match'') = switcher_entry ns2 (lit ''version_match''))"
proof (intro conjI impI)
  assume "n \<notin> {''copyright'', ''version_file'', ''release'', ''version'', ''switcher_version'',
               ''cname'', ''html_theme_options''}"
  with assms show "ns1 n = ns2 n"
    by (auto simp: conf_def Let_def sphinx_settings_def html_settings_def split: sum.splits)
next
  assume "k \<noteq> lit ''switcher''"
  with assms show "theme_option ns1 k = theme_option ns2 k"
    by (auto simp: conf_def Let_def theme_option_conf split: sum.splits)
next
  assume "year w1 = year w2"
  with assms show "ns1 ''copyright'' = ns2 ''copyright''"
    by (auto simp: conf_def Let_def sphinx_settings_frame html_settings_frame split: sum.splits)
next
  assume e: "environ w1 (lit ''DOCUMENTATION_CNAME'') = environ w2 (lit ''DOCUMENTATION_CNAME'')"
  with assms show "ns1 ''cname'' = ns2 ''cname''"
    by (auto simp: conf_def Let_def os_getenv_def sphinx_settings_frame html_settings_frame
             split: sum.splits)
  from assms e show "switcher_entry ns1 (lit ''json_url'') = switcher_entry ns2 (lit ''json_url'')"
    by (auto simp: conf_def Let_def os_getenv_def switcher_entry_conf split: sum.splits)
next
  assume f: "files w1 version_path = files w2 version_path"
  with assms show "ns1 ''version_file'' = ns2 ''version_file''"
    by (auto simp: conf_def Let_def sphinx_settings_frame html_settings_frame split: sum.splits)
  from assms f show "ns1 ''release'' = ns2 ''release''"
    by (auto simp: conf_def Let_def sphinx_settings_frame html_settings_frame split: sum.splits)
  from assms f show "ns1 ''version'' = ns2 ''version''"
    by (auto simp: conf_def Let_def sphinx_settings_frame html_settings_frame split: sum.splits)
  from assms f show "ns1 ''switcher_version'' = ns2 ''switcher_version''"
    by (auto simp: conf_def Let_def sphinx_settings_frame html_settings_frame split: sum.splits)
  from assms f show "switcher_entry ns1 (lit ''version_match'') = switcher_entry ns2 (lit ''version_match'')"
    by (auto simp: conf_def Let_def switcher_entry_conf lit_def split: sum.splits)
qed

theorem conf_static_values_witness:
  "(case conf sample_theme sample_world of
      Inl e \<Rightarrow> False
    | Inr ns1 \<Rightarrow>
        (case conf sample_theme
                (sample_world\<lparr>environ := [lit ''DOCUMENTATION_CNAME'' \<mapsto> lit ''docs.example.com''],
                                year := 2026\<rparr>) of
           Inl e \<Rightarrow> False
         | Inr ns2 \<Rightarrow>
             ns1 ''extensions'' = ns2 ''extensions'' \<and>
             theme_option ns1 (lit ''github_url'') = theme_option ns2 (lit ''github_url'') \<and>
             ns1 ''version'' = ns2 ''version''))"
proof -
  let ?w = "sample_world\<lparr>environ := [lit ''DOCUMENTATION_CNAME'' \<mapsto> lit ''docs.example.com''],
                          year := 2026\<rparr>"
  obtain ns1 where c1: "conf sample_theme sample_world = Inr ns1"
    using sample_conf_ok [of sample_world] by auto
  obtain ns2 where c2: "conf sample_theme ?w = Inr ns2"
    using sample_conf_ok [of ?w] by auto
  have k: "lit ''github_url'' \<noteq> lit ''switcher''" by (simp add: lit_def)
  from conf_static_values [OF c1 c2, of "''extensions''" "lit ''github_url''"] k
  have "ns1 ''extensions'' = ns2 ''extensions'' \<and>
        theme_option ns1 (lit ''github_url'') = theme_option ns2 (lit ''github_url'') \<and>
        ns1 ''version'' = ns2 ''version''"
    by simp
  then show ?thesis by (simp add: c1 c2)
qed

text \<open>
  The claim as stated, that every value other than \<open>version\<close> and \<open>release\<close> is a
  constant independent of file, environment and clock, fails: \<open>copyright\<close> changes with
  the year, \<open>cname\<close> with \<open>DOCUMENTATION_CNAME\<close>, and \<open>switcher_version\<close> with the
  version file.
\<close>

theorem conf_static_values_counterexample:
  "module_value (conf sample_theme sample_world) ''copyright'' =
     Inr (Some (VStr (lit ''(c) 2025 ANSYS, Inc. All rights reserved''))) \<and>
   module_value (conf sample_theme (sample_world\<lparr>year := 2026\<rparr>)) ''copyright'' =
     Inr (Some (VStr (lit ''(c) 2026 ANSYS, Inc. All rights reserved''))) \<and>
   module_value (conf sample_theme sample_world) ''cname'' =
     Inr (Some (VStr (lit ''laughing-guide-5m1lvq6.pages.github.io''))) \<and>
   module_value (conf sample_theme
       (sample_world\<lparr>environ := [lit ''DOCUMENTATION_CNAME'' \<mapsto> lit ''docs.example.com'']\<rparr>))
     ''cname'' = Inr (Some (VStr (lit ''docs.example.com''))) \<and>
   module_value (conf sample_theme sample_world) ''switcher_version'' =
     Inr (Some (VStr (lit ''1.2''))) \<and>
   module_value (conf sample_theme
       (sample_world\<lparr>files := version_file_only (lit ''2.0.dev0'' @ [10])\<rparr>))
     ''switcher_version'' = Inr (Some (VStr (lit ''dev'')))"
proof -
  let ?y = "sample_world\<lparr>year := 2026\<rparr>"
  let ?e = "sample_world\<lparr>environ := [lit ''DOCUMENTATION_CNAME'' \<mapsto> lit ''docs.example.com'']\<rparr>"
  let ?f = "sample_world\<lparr>files := version_file_only (lit ''2.0.dev0'' @ [10])\<rparr>"
  have m: "get_version_match sample_theme (lit ''1.2.3'') = Inr (VStr (lit ''1.2''))"
    by (simp add: sample_theme_def sample_match)
  have fy: "files ?y version_path = Inr sample_text" using sample_files by simp
  have fe: "files ?e version_path = Inr sample_text" using sample_files by simp
  have ff: "files ?f version_path = Inr (lit ''2.0.dev0'' @ [10])"
    by (simp add: version_file_only_def version_path_eq)
  have vf: "strip (readline (universal_newlines (lit ''2.0.dev0'' @ [10]))) = lit ''2.0.dev0''"
    by (simp add: lit_def strip_def isspace_def)
  have mf: "get_version_match sample_theme (lit ''2.0.dev0'') = Inr (VStr (lit ''dev''))"
    by (simp add: sample_theme_def sample_version_match_def lit_def)
  have "module_value (conf sample_theme sample_world) ''copyright'' =
          Inr (Some (VStr (lit ''(c) 2025 ANSYS, Inc. All rights reserved'')))"
    using module_value_conf(1) [OF sample_files sample_first_line m]
    by (simp add: sample_world_def format_int_2025 lit_def)
  moreover have "module_value (conf sample_theme ?y) ''copyright'' =
          Inr (Some (VStr (lit ''(c) 2026 ANSYS, Inc. All rights reserved'')))"
    using module_value_conf(1) [OF fy sample_first_line m]
    by (simp add: format_int_2026 lit_def)
  moreover have "module_value (conf sample_theme sample_world) ''cname'' =
          Inr (Some (VStr (lit ''laughing-guide-5m1lvq6.pages.github.io'')))"
    using module_value_conf(2) [OF sample_files sample_first_line m]
    by (simp add: sample_world_def os_getenv_def)
  moreover have "module_value (conf sample_theme ?e) ''cname'' =
          Inr (Some (VStr (lit ''docs.example.com'')))"
    using module_value_conf(2) [OF fe sample_first_line m]
    by (simp add: os_getenv_def)
  moreover have "module_value (conf sample_theme sample_world) ''switcher_version'' =
          Inr (Some (VStr (lit ''1.2'')))"
    using module_value_conf(3) [OF sample_files sample_first_line m] .
  moreover have "module_value (conf sample_theme ?f) ''switcher_version'' =
          Inr (Some (VStr (lit ''dev'')))"
    using module_value_conf(3) [OF ff vf mf] .
  ultimately show ?thesis by blast
qed

text \<open>
  Claim C10. Two runs whose version files have the same stripped first line and that see
  the same \<open>DOCUMENTATION_CNAME\<close>: when the year is the same too, the results are
  equal, exception or configuration; and whatever the years, two assembled configurations
  agree on every variable other than \<open>copyright\<close>, which in each is the fixed text around
  that run's year.
\<close>

theorem conf_deterministic:
  assumes "files w1 version_path = Inr body1" and "files w2 version_path = Inr body2"
    and "strip (readline (universal_newlines body1)) = strip (readline (universal_newlines body2))"
    and "environ w1 (lit ''DOCUMENTATION_CNAME'') = environ w2 (lit ''DOCUMENTATION_CNAME'')"
  shows "(year w1 = year w2 \<longrightarrow> conf th w1 = conf th w2) \<and>
         (\<forall>ns1 ns2. conf th w1 = Inr ns1 \<and> conf th w2 = Inr ns2 \<longrightarrow>
            (\<forall>n. n \<noteq> ''copyright'' \<longrightarrow> ns1 n = ns2 n) \<and>
            ns1 ''copyright'' =
              Some (VStr (lit ''(c) '' @ format_int (year w1) @ lit '' ANSYS, Inc. All rights reserved'')) \<and>
            ns2 ''copyright'' =
              Some (VStr (lit ''(c) '' @ format_int (year w2) @ lit '' ANSYS, Inc. All rights reserved'')))"
proof (intro conjI impI allI)
  assume "year w1 = year w2"
  moreover have "os_getenv (environ w1) (lit ''DOCUMENTATION_CNAME'')
                   (lit ''laughing-guide-5m1lvq6.pages.github.io'') =
                 os_getenv (environ w2) (lit ''DOCUMENTATION_CNAME'')
                   (lit ''laughing-guide-5m1lvq6.pages.github.io'')"
    using assms(4) by (simp add: os_getenv_def)
  ultimately show "conf th w1 = conf th w2"
    using assms(1-3) by (simp add: conf_def Let_def split: sum.splits)
next
  fix ns1 ns2 n
  assume c: "conf th w1 = Inr ns1 \<and> conf th w2 = Inr ns2" and n: "n \<noteq> ''copyright''"
  with assms show "ns1 n = ns2 n"
    by (auto simp: conf_def Let_def os_getenv_def sphinx_settings_def html_settings_def
             split: sum.splits)
next
  fix ns1 ns2
  assume c: "conf th w1 = Inr ns1 \<and> conf th w2 = Inr ns2"
  then show "ns1 ''copyright'' =
      Some (VStr (lit ''(c) '' @ format_int (year w1) @ lit '' ANSYS, Inc. All rights reserved''))"
    by (auto simp: conf_def Let_def sphinx_settings_frame html_settings_frame split: sum.splits)
  from c show "ns2 ''copyright'' =
      Some (VStr (lit ''(c) '' @ format_int (year w2) @ lit '' ANSYS, Inc. All rights reserved''))"
    by (auto simp: conf_def Let_def sphinx_settings_frame html_settings_frame split: sum.splits)
qed

theorem conf_deterministic_witness:
  "(\<exists>ns. conf sample_theme sample_world = Inr ns) \<and>
   conf sample_theme sample_world =
   conf sample_theme (sample_world\<lparr>files := version_file_only (lit ''1.2.3'')\<rparr>)"
proof -
  let ?w = "sample_world\<lparr>files := version_file_only (lit ''1.2.3'')\<rparr>"
  have f: "files ?w version_path = Inr (lit ''1.2.3'')"
    by (simp add: version_file_only_def version_path_eq)
  have s: "strip (readline (universal_newlines sample_text)) =
           strip (readline (universal_newlines (lit ''1.2.3'')))"
    unfolding sample_first_line by (simp add: lit_def strip_def isspace_def)
  have e: "environ sample_world (lit ''DOCUMENTATION_CNAME'') = environ ?w (lit ''DOCUMENTATION_CNAME'')"
    by simp
  from conf_deterministic [OF sample_files f s e, of sample_theme]
  have "conf sample_theme sample_world = conf sample_theme ?w" by simp
  with sample_conf_ok [of sample_world] show ?thesis by simp
qed

end
